theory Spec2Isabelle
  imports Main
begin

section \<open>Request admission and OAuth facade of the Outlook MCP gateway\<close>

text \<open>
  A shallow embedding of the bearer-token middleware (auth/middleware.ts), of the OAuth
  proxy routes (auth/metadata.ts: \<open>/register\<close>, \<open>/authorize\<close>, \<open>/token\<close>) and of the
  parts of config.ts and tools/index.ts they call. JavaScript strings are \<open>string\<close>;
  an absent property (\<open>undefined\<close>) is \<open>None\<close>; a thrown exception is the \<open>Inl\<close> of a
  sum; a response written with \<open>res.status(..).json(..)\<close> and a call of \<open>next()\<close> are
  events of a trace, in the order the handler performs them. Logging is left out.
\<close>

subsection \<open>JavaScript strings\<close>

text \<open>
  \<open>String.prototype.trim\<close> strips white space and line terminators. A header value is
  a Latin-1 string in Node, so of the code points \<open>trim\<close> strips only U+0009..U+000D,
  U+0020 and U+00A0 can occur.
\<close>

definition js_whitespace :: "char \<Rightarrow> bool" where
  "js_whitespace c =
     (c = CHR 0x09 \<or> c = CHR 0x0A \<or> c = CHR 0x0B \<or> c = CHR 0x0C \<or> c = CHR 0x0D
      \<or> c = CHR 0x20 \<or> c = CHR 0xA0)"

definition trim :: "string \<Rightarrow> string" where
  "trim s = rev (dropWhile js_whitespace (rev (dropWhile js_whitespace s)))"

definition startsWith :: "string \<Rightarrow> string \<Rightarrow> bool" where
  "startsWith s p = (take (length p) s = p)"

definition substring :: "string \<Rightarrow> nat \<Rightarrow> string" where
  "substring s n = drop n s"

text \<open>An optional string is truthy when it is present and not empty.\<close>

definition truthy :: "string option \<Rightarrow> bool" where
  "truthy x = (case x of None \<Rightarrow> False | Some s \<Rightarrow> s \<noteq> [])"

text \<open>\<open>s.includes(sub)\<close>: \<open>sub\<close> occurs in \<open>s\<close> as a contiguous run.\<close>

fun str_includes :: "string \<Rightarrow> string \<Rightarrow> bool" where
  "str_includes [] sub = (sub = [])"
| "str_includes (c # cs) sub = (take (length sub) (c # cs) = sub \<or> str_includes cs sub)"

text \<open>\<open>xs.join(sep)\<close>\<close>

fun join :: "string list \<Rightarrow> string \<Rightarrow> string" where
  "join [] sep = []"
| "join [x] sep = x"
| "join (x # y # ys) sep = x @ sep @ join (y # ys) sep"

text \<open>\<open>s.split(sep)\<close> for a separator of one character.\<close>

fun split_on :: "char \<Rightarrow> string \<Rightarrow> string list" where
  "split_on sep [] = [[]]"
| "split_on sep (c # cs) =
     (if c = sep then [] # split_on sep cs
      else (case split_on sep cs of [] \<Rightarrow> [[c]] | seg # segs \<Rightarrow> (c # seg) # segs))"

subsection \<open>JSON values\<close>

text \<open>What \<open>JSON.parse\<close> and \<open>response.json()\<close> return; a number is an integer here.\<close>

datatype json =
    JNull | JBool bool | JNum int | JStr string
  | JArr "json list" | JObj "(string \<times> json) list"

subsection \<open>URLSearchParams\<close>

text \<open>
  A \<open>URLSearchParams\<close> object is its list of name/value pairs. \<open>set\<close> overwrites the
  first pair of that name and removes the others, or appends a pair when there is none;
  \<open>get\<close> returns the first value of the name, or null.
\<close>

type_synonym searchParams = "(string \<times> string) list"

fun sp_set :: "searchParams \<Rightarrow> string \<Rightarrow> string \<Rightarrow> searchParams" where
  "sp_set [] name val = [(name, val)]"
| "sp_set ((n, v) # ps) name val =
     (if n = name then (name, val) # filter (\<lambda>p. fst p \<noteq> name) ps
      else (n, v) # sp_set ps name val)"

definition sp_get :: "searchParams \<Rightarrow> string \<Rightarrow> string option" where
  "sp_get ps name = map_of ps name"

definition sp_getAll :: "searchParams \<Rightarrow> string \<Rightarrow> string list" where
  "sp_getAll ps name = map snd (filter (\<lambda>p. fst p = name) ps)"

subsection \<open>config.ts\<close>

record Config =
  clientId :: string
  clientSecret :: "string option"
  tenantId :: string
  rateLimitRequests :: int
  rateLimitWindowMs :: int
  allowedTenants :: "string list"

record AuthEndpoints =
  authority :: string
  authorizationEndpoint :: string
  tokenEndpoint :: string

definition getAuthEndpoints :: "string \<Rightarrow> AuthEndpoints" where
  "getAuthEndpoints tenant =
     (let authority = ''https://login.microsoftonline.com'' in
      \<lparr> authority = authority,
        authorizationEndpoint = authority @ ''/'' @ tenant @ ''/oauth2/v2.0/authorize'',
        tokenEndpoint = authority @ ''/'' @ tenant @ ''/oauth2/v2.0/token'' \<rparr>)"

subsection \<open>tools/index.ts: the required scopes\<close>

definition BASE_SCOPES :: "string list" where
  "BASE_SCOPES = [''User.Read'', ''offline_access'']"

text \<open>
  \<open>getRequiredScopes\<close> adds the scopes of every enabled tool to a \<open>Set\<close> that starts as
  \<open>BASE_SCOPES\<close>; \<open>Array.from\<close> lists the set in insertion order. The argument is the
  \<open>requiredScopes\<close> of each tool that \<open>getFilteredTools\<close> returns.
\<close>

fun set_add :: "string list \<Rightarrow> string \<Rightarrow> string list" where
  "set_add xs x = (if x \<in> set xs then xs else xs @ [x])"

definition getRequiredScopes :: "string list list \<Rightarrow> string list" where
  "getRequiredScopes tools = foldl (\<lambda>scopeSet tool. foldl set_add scopeSet tool) BASE_SCOPES tools"

subsection \<open>The claim extractor\<close>

text \<open>
  The code of the claim extractor (auth/token-validator.ts), of the tenant gate and of
  the rate limiter (middleware/rate-limiter.ts) is not among the sources; the three
  subsections that follow model them from the spec (sections 3 and 4.1 to 4.3). The
  clock of \<open>parse\<close> counts epoch seconds, as \<open>expiresAt\<close> does.
\<close>

datatype parse_error = InvalidToken | ExpiredToken

text \<open>The names, in the payload, of the claims that the spec calls subject, tenant,
  expiry and principal name.\<close>

record ClaimKeys =
  subjectKey :: string
  tenantKey :: string
  expiryKey :: string
  principalKey :: string

record ParsedClaims =
  subjectId :: string
  tenantId :: string
  displayIdentifier :: string
  expiresAt :: int

text \<open>Modelled from the spec: \<open>parse\<close> of the Claim Extractor (spec section 4.1; the code,
  auth/token-validator.ts, is missing). The token must have three dot-separated
  segments; the middle one must decode (base64url) to a JSON object in which the subject
  and the tenant are strings and the expiry is a number; otherwise the token is invalid.
  An expiry in the past relative to the current time makes it expired. The display
  identifier is the principal-name claim when it is a non-empty string, else the subject.
  \<open>base64url\<close> and \<open>jsonParse\<close> are the platform's decoders (\<open>None\<close> when they fail).
\<close>

definition parse ::
  "(string \<Rightarrow> string option) \<Rightarrow> (string \<Rightarrow> json option) \<Rightarrow> ClaimKeys \<Rightarrow> int \<Rightarrow> string \<Rightarrow>
   parse_error + ParsedClaims" where
  "parse base64url jsonParse keys now tok =
     (case split_on (CHR ''.'') tok of
        [header, payload, signature] \<Rightarrow>
          (case base64url payload of
             None \<Rightarrow> Inl InvalidToken
           | Some decoded \<Rightarrow>
               (case jsonParse decoded of
                  Some (JObj members) \<Rightarrow>
                    (case (map_of members (subjectKey keys), map_of members (tenantKey keys),
                           map_of members (expiryKey keys)) of
                       (Some (JStr subject), Some (JStr tenant), Some (JNum expiry)) \<Rightarrow>
                         if expiry < now then Inl ExpiredToken
                         else Inr \<lparr> subjectId = subject, tenantId = tenant,
                                    displayIdentifier =
                                      (case map_of members (principalKey keys) of
                                         Some (JStr upn) \<Rightarrow>
                                           if upn \<noteq> [] then upn else subject
                                       | _ \<Rightarrow> subject),
                                    expiresAt = expiry \<rparr>
                     | _ \<Rightarrow> Inl InvalidToken)
                | _ \<Rightarrow> Inl InvalidToken))
      | _ \<Rightarrow> Inl InvalidToken)"

subsection \<open>The tenant gate\<close>

datatype gate_result = Ok | TenantNotAllowed

text \<open>Modelled from the spec: \<open>check\<close> of the Tenant Gate (spec section 4.2; the code is
  missing). An empty allowlist admits every tenant; a non-empty one admits exactly its
  members, compared as strings.
\<close>

definition check :: "string \<Rightarrow> string set \<Rightarrow> gate_result" where
  "check tenant allowlist =
     (if allowlist = {} then Ok
      else if tenant \<in> allowlist then Ok
      else TenantNotAllowed)"

subsection \<open>The rate limiter\<close>

record RateLimitWindow =
  windowStartMs :: int
  requestCount :: int

record Decision =
  allowed :: bool
  remaining :: int
  resetAtMs :: int
  retryAfterSeconds :: "int option"

text \<open>Modelled from the spec: the rounding in \<open>retryAfterSeconds = ceil((resetAtMs - now) /
  1000)\<close> of the Rate Limiter (spec section 4.3; the code, middleware/rate-limiter.ts, is
  missing), on integers.
\<close>

definition ceil_div :: "int \<Rightarrow> int \<Rightarrow> int" where
  "ceil_div a b = - ((- a) div b)"

text \<open>Modelled from the spec: the window policy of the Rate Limiter (spec section 4.3; the
  code is missing). A call at time \<open>now\<close> starts a fresh window with count 1 when the
  identity has no window or its window's age exceeds \<open>windowMs\<close>, and increments the
  count otherwise.
\<close>

definition next_window :: "int \<Rightarrow> int \<Rightarrow> RateLimitWindow option \<Rightarrow> RateLimitWindow" where
  "next_window windowMs now w =
     (case w of
        None \<Rightarrow> \<lparr> windowStartMs = now, requestCount = 1 \<rparr>
      | Some w0 \<Rightarrow>
          if now - windowStartMs w0 > windowMs then \<lparr> windowStartMs = now, requestCount = 1 \<rparr>
          else w0\<lparr> requestCount := requestCount w0 + 1 \<rparr>)"

text \<open>Modelled from the spec: \<open>admit\<close> of the Rate Limiter (spec section 4.3; the code is
  missing). The decision is read from the window after the update:
  \<open>allowed = (count \<le> limit)\<close>, \<open>remaining = max(0, limit - count)\<close>,
  \<open>resetAtMs = windowStartMs + windowMs\<close>; a denial carries \<open>retryAfterSeconds\<close>.
\<close>

definition admit ::
  "int \<Rightarrow> int \<Rightarrow> int \<Rightarrow> 'k \<Rightarrow> ('k \<rightharpoonup> RateLimitWindow) \<Rightarrow> Decision \<times> ('k \<rightharpoonup> RateLimitWindow)" where
  "admit limit windowMs now k windows =
     (let w = next_window windowMs now (windows k);
          reset = windowStartMs w + windowMs;
          ok = (requestCount w \<le> limit)
      in (\<lparr> allowed = ok,
            remaining = max 0 (limit - requestCount w),
            resetAtMs = reset,
            retryAfterSeconds = (if ok then None else Some (ceil_div (reset - now) 1000)) \<rparr>,
          windows(k \<mapsto> w)))"

subsection \<open>auth/middleware.ts\<close>

text \<open>
  What \<open>parseToken\<close> and \<open>getUserIdentifier\<close> (token-validator.ts) may throw: a
  \<open>TokenValidationError\<close> with its \<open>code\<close> and \<open>message\<close>, or anything else.
\<close>

datatype thrown = TokenValidationError string string | OtherError string

text \<open>The middleware reads the fields \<open>oid\<close> and \<open>tid\<close> of a parsed token.\<close>

record ParsedToken =
  oid :: string
  tid :: string

record 'p AuthInfo =
  token :: string
  userId :: string
  tenantId :: string
  parsedToken :: 'p

record 'p AuthenticatedRequest =
  authorization :: "string option"
  auth :: "'p AuthInfo option"
  rateLimitUserId :: "string option"

text \<open>
  The observable steps of a request: the calls into the token validator, a JSON error
  response (status, \<open>error\<close>, \<open>error_description\<close>), the call of \<open>next()\<close>, and the
  entry into the handlers that follow the middleware on the route.
\<close>

datatype event =
    ParseToken string
  | GetUserIdentifier
  | Json nat string string
  | Next
  | Downstream

definition getStatusCode :: "string \<Rightarrow> nat" where
  "getStatusCode code =
     (if code = ''expired_token'' \<or> code = ''invalid_token'' then 401
      else if code = ''tenant_not_allowed'' then 403
      else 401)"

text \<open>The \<open>catch\<close> block of the middleware.\<close>

fun catch_error :: "thrown \<Rightarrow> event" where
  "catch_error (TokenValidationError code message) = Json (getStatusCode code) code message"
| "catch_error (OtherError _) =
     Json 500 ''server_error'' ''Authentication failed due to internal error''"

definition bearerAuthMiddleware ::
  "(string \<Rightarrow> thrown + 'a ParsedToken_scheme) \<Rightarrow> ('a ParsedToken_scheme \<Rightarrow> thrown + string) \<Rightarrow>
   'a ParsedToken_scheme AuthenticatedRequest \<Rightarrow>
   'a ParsedToken_scheme AuthenticatedRequest \<times> event list" where
  "bearerAuthMiddleware parseToken getUserIdentifier req =
     (case authorization req of
        None \<Rightarrow> (req, [Json 401 ''invalid_request'' ''Missing Authorization header''])
      | Some authHeader \<Rightarrow>
          if authHeader = [] then
            (req, [Json 401 ''invalid_request'' ''Missing Authorization header''])
          else if \<not> startsWith authHeader ''Bearer '' then
            (req, [Json 401 ''invalid_request'' ''Authorization header must use Bearer scheme''])
          else
            let token = trim (substring authHeader 7) in
            if token = [] then
              (req, [Json 401 ''invalid_token'' ''Bearer token is empty''])
            else
              (case parseToken token of
                 Inl e \<Rightarrow> (req, [ParseToken token, catch_error e])
               | Inr parsed \<Rightarrow>
                   (case getUserIdentifier parsed of
                      Inl e \<Rightarrow> (req, [ParseToken token, GetUserIdentifier, catch_error e])
                    | Inr uid \<Rightarrow>
                        (req\<lparr> auth := Some \<lparr> token = token, userId = uid,
                                             tenantId = tid parsed, parsedToken = parsed \<rparr>,
                              rateLimitUserId := Some (oid parsed) \<rparr>,
                         [ParseToken token, GetUserIdentifier, Next]))))"

text \<open>
  server.ts registers \<open>app.post('/mcp', bearerAuthMiddleware, rateLimit, handleMcpRequest)\<close>:
  the rate limiter and the handler run only when the middleware calls \<open>next()\<close>, on the
  request as the middleware left it. \<open>rest\<close> stands for both.
\<close>

definition mcp_route ::
  "(string \<Rightarrow> thrown + 'a ParsedToken_scheme) \<Rightarrow> ('a ParsedToken_scheme \<Rightarrow> thrown + string) \<Rightarrow>
   ('a ParsedToken_scheme AuthenticatedRequest \<Rightarrow> event list) \<Rightarrow>
   'a ParsedToken_scheme AuthenticatedRequest \<Rightarrow> event list" where
  "mcp_route parseToken getUserIdentifier rest req =
     (case bearerAuthMiddleware parseToken getUserIdentifier req of
        (req', evs) \<Rightarrow> if Next \<in> set evs then evs @ Downstream # rest req' else evs)"

text \<open>A response is an event that writes one; \<open>responses\<close> lists the ones of a trace.\<close>

fun is_response :: "event \<Rightarrow> bool" where
  "is_response (Json _ _ _) = True"
| "is_response _ = False"

definition responses :: "event list \<Rightarrow> event list" where
  "responses evs = filter is_response evs"

subsection \<open>auth/metadata.ts: dynamic client registration\<close>










subsection \<open>auth/metadata.ts: the authorize redirect\<close>

text \<open>
  A value of \<open>req.query\<close>, as the query parser (qs) builds it: a string, an array (a
  repeated parameter) or a nested object (\<open>a[b]=c\<close>).
\<close>

datatype qsval = QString string | QArray "qsval list" | QObject "(string \<times> qsval) list"

type_synonym query = "string \<Rightarrow> qsval option"

text \<open>A \<open>URL\<close> object: the URL up to its query, and its \<open>searchParams\<close>.\<close>

record URL =
  href :: string
  searchParams :: searchParams

definition allowedParams :: "string list" where
  "allowedParams =
     [''response_type'', ''redirect_uri'', ''scope'', ''state'', ''code_challenge'',
      ''code_challenge_method'', ''login_hint'', ''domain_hint'']"

text \<open>The loop over \<open>allowedParams\<close>: a parameter is copied when it is a non-empty string.\<close>

fun forward_params :: "string list \<Rightarrow> query \<Rightarrow> searchParams \<Rightarrow> searchParams" where
  "forward_params [] q ps = ps"
| "forward_params (param # rest) q ps =
     forward_params rest q
       (case q param of
          Some (QString v) \<Rightarrow> if v \<noteq> [] then sp_set ps param v else ps
        | _ \<Rightarrow> ps)"

text \<open>
  The \<open>/authorize\<close> handler returns the URL it redirects to. \<open>newURL\<close> is the platform's
  URL constructor, \<open>tools\<close> the required scopes of the enabled tools.
\<close>

definition authorize :: "Config \<Rightarrow> (string \<Rightarrow> URL) \<Rightarrow> string list list \<Rightarrow> query \<Rightarrow> URL" where
  "authorize config newURL tools q =
     (let microsoftAuthUrl = newURL (authorizationEndpoint (getAuthEndpoints (Config.tenantId config)));
          ps1 = forward_params allowedParams q (searchParams microsoftAuthUrl);
          ps2 = sp_set ps1 ''client_id'' (clientId config);
          ps3 = (case sp_get ps2 ''scope'' of
                   None \<Rightarrow> sp_set ps2 ''scope'' (join (getRequiredScopes tools) '' '')
                 | Some s \<Rightarrow>
                     if s = [] then sp_set ps2 ''scope'' (join (getRequiredScopes tools) '' '')
                     else ps2)
      in microsoftAuthUrl\<lparr> searchParams := ps3 \<rparr>)"

subsection \<open>auth/metadata.ts: the token proxy\<close>

text \<open>
  The body is a \<open>Record<string, string>\<close>. \<open>fetch\<close> throws, or returns a response with
  its status and its body parsed as JSON (\<open>None\<close> when \<open>response.json()\<close> rejects).
\<close>

type_synonym body = "string \<Rightarrow> string option"

datatype fetch_result = FetchThrows | FetchResponse nat "json option"

datatype reply = ErrorReply nat string string | DataReply nat json

text \<open>
  The \<open>try\<close> block: one request to the token endpoint, logged with its parameters. When
  the response is not ok the handler reads \<open>data.error\<close> for its log line before it
  answers; on \<open>null\<close> that read throws, and the \<open>catch\<close> block answers instead.
\<close>

definition proxy_fetch ::
  "(string \<Rightarrow> searchParams \<Rightarrow> fetch_result) \<Rightarrow> string \<Rightarrow> searchParams \<Rightarrow>
   reply \<times> (string \<times> searchParams) list" where
  "proxy_fetch fetch endpoint params =
     ((case fetch endpoint params of
         FetchThrows \<Rightarrow> ErrorReply 500 ''server_error'' ''Token exchange failed''
       | FetchResponse status None \<Rightarrow> ErrorReply 500 ''server_error'' ''Token exchange failed''
       | FetchResponse status (Some data) \<Rightarrow>
           if \<not> (200 \<le> status \<and> status \<le> 299) then
             (if data = JNull then ErrorReply 500 ''server_error'' ''Token exchange failed''
              else DataReply status data)
           else DataReply 200 data),
      [(endpoint, params)])"

text \<open>
  The \<open>/token\<close> handler returns its response and the requests it made to the upstream
  token endpoint.
\<close>

definition token_handler ::
  "Config \<Rightarrow> (string \<Rightarrow> searchParams \<Rightarrow> fetch_result) \<Rightarrow> body \<Rightarrow>
   reply \<times> (string \<times> searchParams) list" where
  "token_handler config fetch body =
     (let endpoint = tokenEndpoint (getAuthEndpoints (Config.tenantId config));
          required = (ErrorReply 400 ''invalid_request'' ''grant_type parameter is required'', [])
      in case body ''grant_type'' of
           None \<Rightarrow> required
         | Some grant_type \<Rightarrow>
             if grant_type = [] then required
             else
               let params0 = sp_set (sp_set [] ''client_id'' (clientId config)) ''grant_type'' grant_type;
                   params = (case clientSecret config of
                               None \<Rightarrow> params0
                             | Some secret \<Rightarrow>
                                 if secret = [] then params0
                                 else sp_set params0 ''client_secret'' secret)
               in
               if grant_type = ''authorization_code'' then
                 (case (body ''code'', body ''redirect_uri'') of
                    (Some code, Some redirect_uri) \<Rightarrow>
                      if code = [] \<or> redirect_uri = [] then
                        (ErrorReply 400 ''invalid_request''
                           ''code and redirect_uri are required for authorization_code grant'', [])
                      else
                        let params1 = sp_set (sp_set params ''code'' code) ''redirect_uri'' redirect_uri;
                            params2 = (case body ''code_verifier'' of
                                         None \<Rightarrow> params1
                                       | Some code_verifier \<Rightarrow>
                                           if code_verifier = [] then params1
                                           else sp_set params1 ''code_verifier'' code_verifier)
                        in proxy_fetch fetch endpoint params2
                  | _ \<Rightarrow>
                      (ErrorReply 400 ''invalid_request''
                         ''code and redirect_uri are required for authorization_code grant'', []))
               else if grant_type = ''refresh_token'' then
                 (case body ''refresh_token'' of
                    None \<Rightarrow>
                      (ErrorReply 400 ''invalid_request''
                         ''refresh_token is required for refresh_token grant'', [])
                  | Some refresh_token \<Rightarrow>
                      if refresh_token = [] then
                        (ErrorReply 400 ''invalid_request''
                           ''refresh_token is required for refresh_token grant'', [])
                      else proxy_fetch fetch endpoint (sp_set params ''refresh_token'' refresh_token))
               else
                 (ErrorReply 400 ''unsupported_grant_type''
                    (''Grant type '' @ [CHR 0x27] @ grant_type @ [CHR 0x27] @ '' is not supported''),
                  []))"

section \<open>The admission middleware\<close>

lemma startsWith_nonempty: "startsWith s ''Bearer '' \<Longrightarrow> s \<noteq> []"
  by (auto simp: startsWith_def)

text \<open>
  Every run of the middleware is one of two: the token parsed and the request, extended
  with \<open>auth\<close> and \<open>rateLimitUserId\<close>, went on to \<open>next()\<close>; or the request is unchanged
  and the trace holds one response and no \<open>next()\<close>.
\<close>

lemma middleware_cases:
  "(\<exists>tok parsed uid. parseToken tok = Inr parsed \<and> getUserIdentifier parsed = Inr uid
       \<and> bearerAuthMiddleware parseToken getUserIdentifier req
         = (req\<lparr> auth := Some \<lparr> token = tok, userId = uid, tenantId = tid parsed,
                                parsedToken = parsed \<rparr>,
                 rateLimitUserId := Some (oid parsed) \<rparr>,
            [ParseToken tok, GetUserIdentifier, Next]))
   \<or> (\<exists>evs. bearerAuthMiddleware parseToken getUserIdentifier req = (req, evs)
         \<and> length (responses evs) = 1 \<and> count_list evs Next = 0 \<and> Downstream \<notin> set evs)"
proof (cases "authorization req")
  case None
  then show ?thesis by (simp add: bearerAuthMiddleware_def responses_def)
next
  case (Some h)
  show ?thesis
  proof (cases "h = [] \<or> \<not> startsWith h ''Bearer '' \<or> trim (substring h 7) = []")
    case True
    with Some show ?thesis by (auto simp: bearerAuthMiddleware_def responses_def)
  next
    case False
    show ?thesis
    proof (cases "parseToken (trim (substring h 7))")
      case (Inl e)
      with Some False show ?thesis
        by (cases e) (simp_all add: bearerAuthMiddleware_def responses_def)
    next
      case (Inr parsed)
      note parsed = this
      show ?thesis
      proof (cases "getUserIdentifier parsed")
        case (Inl e)
        with Some False parsed show ?thesis
          by (cases e) (simp_all add: bearerAuthMiddleware_def responses_def)
      next
        case (Inr uid)
        with Some False parsed
        have "bearerAuthMiddleware parseToken getUserIdentifier req
          = (req\<lparr> auth := Some \<lparr> token = trim (substring h 7), userId = uid,
                                 tenantId = tid parsed, parsedToken = parsed \<rparr>,
                  rateLimitUserId := Some (oid parsed) \<rparr>,
             [ParseToken (trim (substring h 7)), GetUserIdentifier, Next])"
          by (simp add: bearerAuthMiddleware_def Let_def)
        with Inr parsed show ?thesis
          by blast
      qed
    qed
  qed
qed

text \<open>
  C6, as amended. A request without an Authorization header, or with an empty one, gets
  401 \<open>invalid_request\<close> "Missing Authorization header"; a non-empty header that does not
  start with "Bearer " gets 401 \<open>invalid_request\<close> with a description that names the
  Bearer scheme; a header that starts with "Bearer " and has nothing but white space after
  it gets 401 \<open>invalid_token\<close>. In each case that response is the whole trace of the
  middleware and of the route: the token parser is not called, \<open>next()\<close> is not called, and
  the rate limiter and the handler behind it are not entered.
\<close>

theorem middleware_malformed_header:
  "(authorization req = None \<or> authorization req = Some [] \<longrightarrow>
      bearerAuthMiddleware parseToken getUserIdentifier req
        = (req, [Json 401 ''invalid_request'' ''Missing Authorization header''])
      \<and> mcp_route parseToken getUserIdentifier rest req
        = [Json 401 ''invalid_request'' ''Missing Authorization header''])
   \<and> (authorization req = Some h \<and> h \<noteq> [] \<and> \<not> startsWith h ''Bearer '' \<longrightarrow>
      bearerAuthMiddleware parseToken getUserIdentifier req
        = (req, [Json 401 ''invalid_request'' ''Authorization header must use Bearer scheme''])
      \<and> mcp_route parseToken getUserIdentifier rest req
        = [Json 401 ''invalid_request'' ''Authorization header must use Bearer scheme''])
   \<and> (authorization req = Some h \<and> startsWith h ''Bearer '' \<and> trim (substring h 7) = [] \<longrightarrow>
      bearerAuthMiddleware parseToken getUserIdentifier req
        = (req, [Json 401 ''invalid_token'' ''Bearer token is empty''])
      \<and> mcp_route parseToken getUserIdentifier rest req
        = [Json 401 ''invalid_token'' ''Bearer token is empty''])
   \<and> str_includes ''Authorization header must use Bearer scheme'' ''Bearer scheme''"
  using startsWith_nonempty [of h]
  by (auto simp: bearerAuthMiddleware_def mcp_route_def)

text \<open>
  The three cases at a request with no header, with a Basic header and with a Bearer
  header of blanks.
\<close>

theorem middleware_malformed_header_witness:
  "mcp_route (\<lambda>t. Inr \<lparr> oid = t, tid = t \<rparr>) (\<lambda>p. Inr (oid p)) (\<lambda>r. [])
     \<lparr> authorization = None, auth = None, rateLimitUserId = None \<rparr>
     = [Json 401 ''invalid_request'' ''Missing Authorization header'']
   \<and> mcp_route (\<lambda>t. Inr \<lparr> oid = t, tid = t \<rparr>) (\<lambda>p. Inr (oid p)) (\<lambda>r. [])
     \<lparr> authorization = Some ''Basic dXNlcjpwdw=='', auth = None, rateLimitUserId = None \<rparr>
     = [Json 401 ''invalid_request'' ''Authorization header must use Bearer scheme'']
   \<and> mcp_route (\<lambda>t. Inr \<lparr> oid = t, tid = t \<rparr>) (\<lambda>p. Inr (oid p)) (\<lambda>r. [])
     \<lparr> authorization = Some ''Bearer    '', auth = None, rateLimitUserId = None \<rparr>
     = [Json 401 ''invalid_token'' ''Bearer token is empty'']"
  using
    middleware_malformed_header
      [of "\<lparr> authorization = None, auth = None, rateLimitUserId = None \<rparr>"
          "\<lambda>t. Inr \<lparr> oid = t, tid = t \<rparr>" "\<lambda>p. Inr (oid p)" "\<lambda>r. []" "[]"]
    middleware_malformed_header
      [of "\<lparr> authorization = Some ''Basic dXNlcjpwdw=='', auth = None, rateLimitUserId = None \<rparr>"
          "\<lambda>t. Inr \<lparr> oid = t, tid = t \<rparr>" "\<lambda>p. Inr (oid p)" "\<lambda>r. []" "''Basic dXNlcjpwdw==''"]
    middleware_malformed_header
      [of "\<lparr> authorization = Some ''Bearer    '', auth = None, rateLimitUserId = None \<rparr>"
          "\<lambda>t. Inr \<lparr> oid = t, tid = t \<rparr>" "\<lambda>p. Inr (oid p)" "\<lambda>r. []" "''Bearer    ''"]
  by (simp add: startsWith_def trim_def substring_def js_whitespace_def)

text \<open>
  C6 as stated fails for a header that is present and empty (\<open>Authorization:\<close> with no
  value): it does not use the Bearer scheme, and the description of the response is
  "Missing Authorization header", which does not mention Bearer.
\<close>

theorem middleware_empty_header_counterexample:
  "authorization \<lparr> authorization = Some [], auth = None :: ParsedToken AuthInfo option,
                   rateLimitUserId = None \<rparr> = Some []
   \<and> \<not> startsWith [] ''Bearer ''
   \<and> snd (bearerAuthMiddleware (\<lambda>t. Inr \<lparr> oid = t, tid = t \<rparr>) (\<lambda>p. Inr (oid p))
        \<lparr> authorization = Some [], auth = None, rateLimitUserId = None \<rparr>)
     = [Json 401 ''invalid_request'' ''Missing Authorization header'']
   \<and> \<not> str_includes ''Missing Authorization header'' ''Bearer''"
  by (simp add: bearerAuthMiddleware_def startsWith_def)

text \<open>
  C7. When the header carries a non-empty bearer token and \<open>parseToken\<close> throws a
  \<open>TokenValidationError\<close>, the middleware answers with the error's code and message:
  with status 401 for \<open>invalid_token\<close> and \<open>expired_token\<close>, with status 403 for
  \<open>tenant_not_allowed\<close>.
\<close>

theorem middleware_validation_error_status:
  assumes "authorization req = Some h" and "startsWith h ''Bearer ''"
    and "trim (substring h 7) = tok" and "tok \<noteq> []"
    and "parseToken tok = Inl (TokenValidationError code msg)"
  shows "(code = ''invalid_token'' \<or> code = ''expired_token'' \<longrightarrow>
            bearerAuthMiddleware parseToken getUserIdentifier req
              = (req, [ParseToken tok, Json 401 code msg]))
         \<and> (code = ''tenant_not_allowed'' \<longrightarrow>
            bearerAuthMiddleware parseToken getUserIdentifier req
              = (req, [ParseToken tok, Json 403 ''tenant_not_allowed'' msg]))"
  using assms startsWith_nonempty [of h]
  by (auto simp: bearerAuthMiddleware_def getStatusCode_def)

theorem middleware_validation_error_status_witness:
  "bearerAuthMiddleware
     (\<lambda>t. Inl (TokenValidationError ''expired_token'' ''Token has expired'') :: thrown + ParsedToken)
     (\<lambda>p. Inr (oid p))
     \<lparr> authorization = Some ''Bearer abc'', auth = None, rateLimitUserId = None \<rparr>
   = (\<lparr> authorization = Some ''Bearer abc'', auth = None, rateLimitUserId = None \<rparr>,
      [ParseToken ''abc'', Json 401 ''expired_token'' ''Token has expired''])
   \<and> bearerAuthMiddleware
     (\<lambda>t. Inl (TokenValidationError ''tenant_not_allowed'' ''Tenant is not allowed'') :: thrown + ParsedToken)
     (\<lambda>p. Inr (oid p))
     \<lparr> authorization = Some ''Bearer abc'', auth = None, rateLimitUserId = None \<rparr>
   = (\<lparr> authorization = Some ''Bearer abc'', auth = None, rateLimitUserId = None \<rparr>,
      [ParseToken ''abc'', Json 403 ''tenant_not_allowed'' ''Tenant is not allowed''])"
  using middleware_validation_error_status
      [of "\<lparr> authorization = Some ''Bearer abc'', auth = None, rateLimitUserId = None \<rparr>"
          "''Bearer abc''" "''abc''"
          "\<lambda>t. Inl (TokenValidationError ''expired_token'' ''Token has expired'')"
          "''expired_token''" "''Token has expired''" "\<lambda>p. Inr (oid p)"]
    middleware_validation_error_status
      [of "\<lparr> authorization = Some ''Bearer abc'', auth = None, rateLimitUserId = None \<rparr>"
          "''Bearer abc''" "''abc''"
          "\<lambda>t. Inl (TokenValidationError ''tenant_not_allowed'' ''Tenant is not allowed'')"
          "''tenant_not_allowed''" "''Tenant is not allowed''" "\<lambda>p. Inr (oid p)"]
  by (simp add: startsWith_def trim_def substring_def js_whitespace_def)

text \<open>
  C9. The middleware either succeeds: \<open>req.auth\<close> becomes
  \<open>{ token, userId, tenantId, parsedToken }\<close>, \<open>req.rateLimitUserId\<close> the token's \<open>oid\<close>,
  \<open>next()\<close> is called once and no response is written, so that the rest of the route runs
  on the request with \<open>auth\<close> set; or it fails: the request is left as it was, one JSON
  response is written, \<open>next()\<close> is not called and the rest of the route is not entered.
\<close>

theorem middleware_success_or_failure:
  "(\<exists>tok parsed uid. parseToken tok = Inr parsed \<and> getUserIdentifier parsed = Inr uid
      \<and> fst (bearerAuthMiddleware parseToken getUserIdentifier req)
          = req\<lparr> auth := Some \<lparr> token = tok, userId = uid, tenantId = tid parsed,
                                 parsedToken = parsed \<rparr>,
                  rateLimitUserId := Some (oid parsed) \<rparr>
      \<and> count_list (snd (bearerAuthMiddleware parseToken getUserIdentifier req)) Next = 1
      \<and> responses (snd (bearerAuthMiddleware parseToken getUserIdentifier req)) = []
      \<and> mcp_route parseToken getUserIdentifier rest req
          = snd (bearerAuthMiddleware parseToken getUserIdentifier req)
            @ Downstream # rest (fst (bearerAuthMiddleware parseToken getUserIdentifier req)))
   \<or> (fst (bearerAuthMiddleware parseToken getUserIdentifier req) = req
      \<and> length (responses (snd (bearerAuthMiddleware parseToken getUserIdentifier req))) = 1
      \<and> count_list (snd (bearerAuthMiddleware parseToken getUserIdentifier req)) Next = 0
      \<and> mcp_route parseToken getUserIdentifier rest req
          = snd (bearerAuthMiddleware parseToken getUserIdentifier req)
      \<and> Downstream \<notin> set (mcp_route parseToken getUserIdentifier rest req))"
  using middleware_cases [of parseToken getUserIdentifier req]
proof (elim disjE exE conjE)
  fix tok parsed uid
  assume "parseToken tok = Inr parsed" and "getUserIdentifier parsed = Inr uid"
    and "bearerAuthMiddleware parseToken getUserIdentifier req
         = (req\<lparr> auth := Some \<lparr> token = tok, userId = uid, tenantId = tid parsed,
                                parsedToken = parsed \<rparr>,
                 rateLimitUserId := Some (oid parsed) \<rparr>,
            [ParseToken tok, GetUserIdentifier, Next])"
  then show ?thesis
    by (intro disjI1 exI [of _ tok] exI [of _ parsed] exI [of _ uid])
      (simp add: mcp_route_def responses_def)
next
  fix evs
  assume "bearerAuthMiddleware parseToken getUserIdentifier req = (req, evs)"
    and "length (responses evs) = 1" and "count_list evs Next = 0" and "Downstream \<notin> set evs"
  then show ?thesis
    by (intro disjI2) (simp add: mcp_route_def count_list_0_iff)
qed

text \<open>A run that succeeds and a run that fails on an expired token.\<close>

theorem middleware_success_or_failure_witness:
  "bearerAuthMiddleware (\<lambda>t. Inr \<lparr> oid = ''user-1'', tid = ''tenant-1'' \<rparr>) (\<lambda>p. Inr ''ada@contoso.com'')
     \<lparr> authorization = Some ''Bearer abc'', auth = None, rateLimitUserId = None \<rparr>
   = (\<lparr> authorization = Some ''Bearer abc'',
        auth = Some \<lparr> token = ''abc'', userId = ''ada@contoso.com'', tenantId = ''tenant-1'',
                      parsedToken = \<lparr> oid = ''user-1'', tid = ''tenant-1'' \<rparr> \<rparr>,
        rateLimitUserId = Some ''user-1'' \<rparr>,
      [ParseToken ''abc'', GetUserIdentifier, Next])
   \<and> bearerAuthMiddleware
     (\<lambda>t. Inl (TokenValidationError ''expired_token'' ''Token has expired'') :: thrown + ParsedToken)
     (\<lambda>p. Inr (oid p))
     \<lparr> authorization = Some ''Bearer abc'', auth = None, rateLimitUserId = None \<rparr>
   = (\<lparr> authorization = Some ''Bearer abc'', auth = None, rateLimitUserId = None \<rparr>,
      [ParseToken ''abc'', Json 401 ''expired_token'' ''Token has expired''])"
  using
    middleware_success_or_failure
      [of "\<lambda>t. Inr \<lparr> oid = ''user-1'', tid = ''tenant-1'' \<rparr>" "\<lambda>p. Inr ''ada@contoso.com''"
          "\<lparr> authorization = Some ''Bearer abc'', auth = None, rateLimitUserId = None \<rparr>" "\<lambda>r. []"]
    middleware_success_or_failure
      [of "\<lambda>t. Inl (TokenValidationError ''expired_token'' ''Token has expired'')" "\<lambda>p. Inr (oid p)"
          "\<lparr> authorization = Some ''Bearer abc'', auth = None, rateLimitUserId = None \<rparr>" "\<lambda>r. []"]
  by (simp add: bearerAuthMiddleware_def getStatusCode_def startsWith_def trim_def
      substring_def js_whitespace_def Let_def)

section \<open>The tenant gate\<close>

text \<open>
  C5. With an empty allowlist \<open>check\<close> accepts every tenant, the empty string included;
  with a non-empty allowlist it accepts exactly the members, compared as strings, so
  that \<open>Contoso\<close> does not pass an allowlist that holds \<open>contoso\<close>.
\<close>

theorem tenant_gate_check:
  "(allowlist = {} \<longrightarrow> check tenant allowlist = Ok)
   \<and> (allowlist \<noteq> {} \<longrightarrow> (check tenant allowlist = Ok \<longleftrightarrow> tenant \<in> allowlist))
   \<and> check [] {} = Ok
   \<and> check ''Contoso'' {''contoso''} = TenantNotAllowed
   \<and> check ''contoso'' {''contoso''} = Ok"
  by (simp add: check_def)

theorem tenant_gate_check_witness:
  "check ''evil'' {} = Ok \<and> check ''contoso'' {''contoso'', ''fabrikam''} = Ok
   \<and> ''contoso'' \<in> {''contoso'', ''fabrikam''}
   \<and> check ''Contoso'' {''contoso'', ''fabrikam''} = TenantNotAllowed
   \<and> ''Contoso'' \<notin> {''contoso'', ''fabrikam''}"
  using tenant_gate_check [of "{}" "''evil''"]
    tenant_gate_check [of "{''contoso'', ''fabrikam''}" "''contoso''"]
    tenant_gate_check [of "{''contoso'', ''fabrikam''}" "''Contoso''"]
  by (simp add: check_def)

section \<open>The authorize redirect\<close>

lemma sp_set_keys: "fst ` set (sp_set ps name v) = insert name (fst ` set ps)"
  by (induction ps name v rule: sp_set.induct) (auto simp: image_iff)

lemma sp_getAll_set_same: "sp_getAll (sp_set ps name v) name = [v]"
  by (induction ps name v rule: sp_set.induct) (auto simp: sp_getAll_def filter_empty_conv)

lemma sp_getAll_set_other: "name' \<noteq> name \<Longrightarrow> sp_getAll (sp_set ps name v) name' = sp_getAll ps name'"
proof (induction ps name v rule: sp_set.induct)
  case (1 name v)
  then show ?case by (simp add: sp_getAll_def)
next
  case (2 n w ps name v)
  have "filter (\<lambda>p. fst p = name') (filter (\<lambda>p. fst p \<noteq> name) ps) = filter (\<lambda>p. fst p = name') ps"
    using "2.prems" by (induction ps) auto
  with 2 show ?case by (auto simp: sp_getAll_def)
qed

lemma sp_get_set_same: "sp_get (sp_set ps name v) name = Some v"
  by (induction ps name v rule: sp_set.induct) (auto simp: sp_get_def)

lemma sp_get_hd_getAll: "sp_get ps name = (case sp_getAll ps name of [] \<Rightarrow> None | v # _ \<Rightarrow> Some v)"
  by (induction ps) (auto simp: sp_get_def sp_getAll_def)

lemma forward_params_keys:
  "fst ` set (forward_params params q ps) \<subseteq> fst ` set ps \<union> set params"
proof (induction params arbitrary: ps)
  case Nil
  then show ?case by simp
next
  case (Cons param rest)
  show ?case
  proof (cases "\<exists>v. q param = Some (QString v) \<and> v \<noteq> []")
    case True
    then obtain v where v: "q param = Some (QString v)" "v \<noteq> []" by blast
    have "fst ` set (forward_params rest q (sp_set ps param v)) \<subseteq> fst ` set (sp_set ps param v) \<union> set rest"
      by (rule Cons.IH)
    with v show ?thesis by (auto simp: sp_set_keys)
  next
    case False
    then have "forward_params (param # rest) q ps = forward_params rest q ps"
      by (auto split: option.splits qsval.splits)
    with Cons.IH [of ps] show ?thesis by auto
  qed
qed

lemma forward_params_cong:
  "(\<forall>p \<in> set params. q p = q' p) \<Longrightarrow> forward_params params q ps = forward_params params q' ps"
  by (induction params arbitrary: ps) auto

lemma forward_params_getAll:
  "distinct params \<Longrightarrow>
   sp_getAll (forward_params params q ps) name =
     (case (if name \<in> set params then q name else None) of
        Some (QString v) \<Rightarrow> if v \<noteq> [] then [v] else sp_getAll ps name
      | _ \<Rightarrow> sp_getAll ps name)"
proof (induction params arbitrary: ps)
  case Nil
  then show ?case by simp
next
  case (Cons param rest)
  show ?case
  proof (cases "name = param")
    case True
    with Cons show ?thesis
      by (auto simp: sp_getAll_set_same split: option.splits qsval.splits)
  next
    case False
    with Cons show ?thesis
      by (auto simp: sp_getAll_set_other split: option.splits qsval.splits)
  qed
qed

lemma scope_allowed: "''scope'' \<in> set allowedParams"
  by (simp add: allowedParams_def)

lemma client_id_not_allowed: "''client_id'' \<notin> set allowedParams"
  by (simp add: allowedParams_def)

lemma distinct_allowedParams: "distinct allowedParams"
  by (simp add: allowedParams_def)

lemma authorize_params_cases:
  "searchParams (authorize config newURL tools q)
     = sp_set (forward_params allowedParams q
         (searchParams (newURL (authorizationEndpoint (getAuthEndpoints (Config.tenantId config))))))
         ''client_id'' (clientId config)
   \<or> searchParams (authorize config newURL tools q)
     = sp_set (sp_set (forward_params allowedParams q
         (searchParams (newURL (authorizationEndpoint (getAuthEndpoints (Config.tenantId config))))))
         ''client_id'' (clientId config)) ''scope'' (join (getRequiredScopes tools) '' '')"
  by (simp add: authorize_def Let_def split: option.splits)

lemma authorize_client_id:
  "sp_getAll (searchParams (authorize config newURL tools q)) ''client_id'' = [clientId config]"
proof -
  have ne: "''client_id'' \<noteq> ''scope''" by simp
  show ?thesis
    using authorize_params_cases [of config newURL tools q]
    by (elim disjE) (simp_all only: sp_getAll_set_same sp_getAll_set_other [OF ne])
qed

lemma authorize_keys:
  "fst ` set (searchParams (authorize config newURL tools q))
     \<subseteq> fst ` set (searchParams (newURL (authorizationEndpoint (getAuthEndpoints (Config.tenantId config)))))
       \<union> set allowedParams \<union> {''client_id''}"
  using authorize_params_cases [of config newURL tools q]
    forward_params_keys [of allowedParams q
      "searchParams (newURL (authorizationEndpoint (getAuthEndpoints (Config.tenantId config))))"]
    scope_allowed
  by (elim disjE) (simp_all only: sp_set_keys, blast+)

lemma authorize_cong:
  "\<forall>p \<in> set allowedParams. q p = q' p \<Longrightarrow>
   authorize config newURL tools q = authorize config newURL tools q'"
  using forward_params_cong [of allowedParams q q']
  by (simp add: authorize_def)

lemma authorize_copied:
  assumes p: "p \<in> set allowedParams" and v: "q p = Some (QString v)" "v \<noteq> []"
  shows "sp_getAll (searchParams (authorize config newURL tools q)) p = [v]"
proof -
  let ?url = "newURL (authorizationEndpoint (getAuthEndpoints (Config.tenantId config)))"
  let ?ps1 = "forward_params allowedParams q (searchParams ?url)"
  let ?ps2 = "sp_set ?ps1 ''client_id'' (clientId config)"
  let ?ps3 = "searchParams (authorize config newURL tools q)"
  from p v have 1: "sp_getAll ?ps1 p = [v]"
    by (simp add: forward_params_getAll [OF distinct_allowedParams])
  from p client_id_not_allowed have "p \<noteq> ''client_id''" by blast
  with 1 have 2: "sp_getAll ?ps2 p = [v]"
    by (simp add: sp_getAll_set_other)
  show ?thesis
  proof (cases "p = ''scope''")
    case True
    with 2 have "sp_get ?ps2 ''scope'' = Some v" by (simp add: sp_get_hd_getAll)
    with v have "?ps3 = ?ps2" by (simp add: authorize_def Let_def)
    with 2 show ?thesis by simp
  next
    case False
    with 2 authorize_params_cases [of config newURL tools q] show ?thesis
      by (elim disjE) (simp_all add: sp_getAll_set_other)
  qed
qed

text \<open>
  C1. In the URL that \<open>/authorize\<close> redirects to, \<open>client_id\<close> occurs once and is the
  configured client id, whatever the query holds. Every parameter name of the URL is one
  of the upstream endpoint's own, one of \<open>allowedParams\<close> or \<open>client_id\<close>; the URL is
  the same for two queries that agree on \<open>allowedParams\<close>, so no other parameter of the
  caller reaches it; and a non-empty string under an allowed name is copied.
\<close>

theorem authorize_redirect:
  "sp_getAll (searchParams (authorize config newURL tools q)) ''client_id'' = [clientId config]
   \<and> sp_get (searchParams (authorize config newURL tools q)) ''client_id'' = Some (clientId config)
   \<and> fst ` set (searchParams (authorize config newURL tools q))
       \<subseteq> fst ` set (searchParams (newURL (authorizationEndpoint (getAuthEndpoints (Config.tenantId config)))))
         \<union> set allowedParams \<union> {''client_id''}
   \<and> ((\<forall>p \<in> set allowedParams. q p = q' p) \<longrightarrow>
        authorize config newURL tools q = authorize config newURL tools q')
   \<and> (p \<in> set allowedParams \<and> q p = Some (QString v) \<and> v \<noteq> [] \<longrightarrow>
        sp_getAll (searchParams (authorize config newURL tools q)) p = [v])"
proof (intro conjI impI)
  show "sp_getAll (searchParams (authorize config newURL tools q)) ''client_id'' = [clientId config]"
    by (rule authorize_client_id)
  then show "sp_get (searchParams (authorize config newURL tools q)) ''client_id'' = Some (clientId config)"
    by (simp add: sp_get_hd_getAll)
  show "fst ` set (searchParams (authorize config newURL tools q))
       \<subseteq> fst ` set (searchParams (newURL (authorizationEndpoint (getAuthEndpoints (Config.tenantId config)))))
         \<union> set allowedParams \<union> {''client_id''}"
    by (rule authorize_keys)
  show "authorize config newURL tools q = authorize config newURL tools q'"
    if "\<forall>p \<in> set allowedParams. q p = q' p"
    using that by (rule authorize_cong)
  show "sp_getAll (searchParams (authorize config newURL tools q)) p = [v]"
    if "p \<in> set allowedParams \<and> q p = Some (QString v) \<and> v \<noteq> []"
    using that authorize_copied [of p q v config newURL tools] by blast
qed

text \<open>
  The request \<open>/authorize?response_type=code&redirect_uri=X&client_id=evil123\<close>, and the
  same request with \<open>prompt=none\<close> in place of the client id.
\<close>

theorem authorize_redirect_witness:
  "authorize
     \<lparr> clientId = ''gateway-app'', clientSecret = None, tenantId = ''common'',
       rateLimitRequests = 30, rateLimitWindowMs = 60000, allowedTenants = [] \<rparr>
     (\<lambda>s. \<lparr> href = s, searchParams = [] \<rparr>) []
     [''response_type'' \<mapsto> QString ''code'', ''redirect_uri'' \<mapsto> QString ''X'',
      ''client_id'' \<mapsto> QString ''evil123'']
   = \<lparr> href = ''https://login.microsoftonline.com/common/oauth2/v2.0/authorize'',
       searchParams = [(''response_type'', ''code''), (''redirect_uri'', ''X''),
                       (''client_id'', ''gateway-app''), (''scope'', ''User.Read offline_access'')] \<rparr>
   \<and> authorize
     \<lparr> clientId = ''gateway-app'', clientSecret = None, tenantId = ''common'',
       rateLimitRequests = 30, rateLimitWindowMs = 60000, allowedTenants = [] \<rparr>
     (\<lambda>s. \<lparr> href = s, searchParams = [] \<rparr>) []
     [''response_type'' \<mapsto> QString ''code'', ''redirect_uri'' \<mapsto> QString ''X'',
      ''client_id'' \<mapsto> QString ''evil123'']
   = authorize
     \<lparr> clientId = ''gateway-app'', clientSecret = None, tenantId = ''common'',
       rateLimitRequests = 30, rateLimitWindowMs = 60000, allowedTenants = [] \<rparr>
     (\<lambda>s. \<lparr> href = s, searchParams = [] \<rparr>) []
     [''response_type'' \<mapsto> QString ''code'', ''redirect_uri'' \<mapsto> QString ''X'',
      ''prompt'' \<mapsto> QString ''none'']"
proof -
  have same: "\<forall>p \<in> set allowedParams.
      [''response_type'' \<mapsto> QString ''code'', ''redirect_uri'' \<mapsto> QString ''X'',
       ''client_id'' \<mapsto> QString ''evil123''] p
    = [''response_type'' \<mapsto> QString ''code'', ''redirect_uri'' \<mapsto> QString ''X'',
       ''prompt'' \<mapsto> QString ''none''] p"
    by (simp add: allowedParams_def)
  have run: "authorize
     \<lparr> clientId = ''gateway-app'', clientSecret = None, tenantId = ''common'',
       rateLimitRequests = 30, rateLimitWindowMs = 60000, allowedTenants = [] \<rparr>
     (\<lambda>s. \<lparr> href = s, searchParams = [] \<rparr>) []
     [''response_type'' \<mapsto> QString ''code'', ''redirect_uri'' \<mapsto> QString ''X'',
      ''client_id'' \<mapsto> QString ''evil123'']
   = \<lparr> href = ''https://login.microsoftonline.com/common/oauth2/v2.0/authorize'',
       searchParams = [(''response_type'', ''code''), (''redirect_uri'', ''X''),
                       (''client_id'', ''gateway-app''), (''scope'', ''User.Read offline_access'')] \<rparr>"
    by (simp add: authorize_def allowedParams_def getAuthEndpoints_def sp_get_def
        getRequiredScopes_def BASE_SCOPES_def)
  from authorize_redirect
      [of "\<lparr> clientId = ''gateway-app'', clientSecret = None, tenantId = ''common'',
            rateLimitRequests = 30, rateLimitWindowMs = 60000, allowedTenants = [] \<rparr>"
          "\<lambda>s. \<lparr> href = s, searchParams = [] \<rparr>" "[]"
          "[''response_type'' \<mapsto> QString ''code'', ''redirect_uri'' \<mapsto> QString ''X'',
            ''client_id'' \<mapsto> QString ''evil123'']"
          "[''response_type'' \<mapsto> QString ''code'', ''redirect_uri'' \<mapsto> QString ''X'',
            ''prompt'' \<mapsto> QString ''none'']"]
    same
  have "authorize
     \<lparr> clientId = ''gateway-app'', clientSecret = None, tenantId = ''common'',
       rateLimitRequests = 30, rateLimitWindowMs = 60000, allowedTenants = [] \<rparr>
     (\<lambda>s. \<lparr> href = s, searchParams = [] \<rparr>) []
     [''response_type'' \<mapsto> QString ''code'', ''redirect_uri'' \<mapsto> QString ''X'',
      ''client_id'' \<mapsto> QString ''evil123'']
   = authorize
     \<lparr> clientId = ''gateway-app'', clientSecret = None, tenantId = ''common'',
       rateLimitRequests = 30, rateLimitWindowMs = 60000, allowedTenants = [] \<rparr>
     (\<lambda>s. \<lparr> href = s, searchParams = [] \<rparr>) []
     [''response_type'' \<mapsto> QString ''code'', ''redirect_uri'' \<mapsto> QString ''X'',
      ''prompt'' \<mapsto> QString ''none'']"
    by blast
  with run show ?thesis by (rule conjI)
qed

section \<open>The token proxy\<close>

lemma token_handler_cong:
  assumes "body ''grant_type'' = body' ''grant_type''" and "body ''code'' = body' ''code''"
    and "body ''redirect_uri'' = body' ''redirect_uri''"
    and "body ''code_verifier'' = body' ''code_verifier''"
    and "body ''refresh_token'' = body' ''refresh_token''"
  shows "token_handler config fetch body = token_handler config fetch body'"
  unfolding token_handler_def assms by (rule refl)

lemma token_handler_missing_grant_type:
  "\<not> truthy (body ''grant_type'') \<Longrightarrow>
   token_handler config fetch body
     = (ErrorReply 400 ''invalid_request'' ''grant_type parameter is required'', [])"
  by (auto simp: token_handler_def truthy_def split: option.splits)

lemma token_handler_unsupported:
  assumes "body ''grant_type'' = Some g" and "g \<noteq> []"
    and "g \<noteq> ''authorization_code''" and "g \<noteq> ''refresh_token''"
  shows "token_handler config fetch body
     = (ErrorReply 400 ''unsupported_grant_type''
          (''Grant type '' @ [CHR 0x27] @ g @ [CHR 0x27] @ '' is not supported''), [])"
  using assms by (simp add: token_handler_def Let_def)

lemma token_handler_code_missing:
  assumes "body ''grant_type'' = Some ''authorization_code''"
    and "\<not> (truthy (body ''code'') \<and> truthy (body ''redirect_uri''))"
  shows "token_handler config fetch body
     = (ErrorReply 400 ''invalid_request''
          ''code and redirect_uri are required for authorization_code grant'', [])"
  using assms by (auto simp: token_handler_def Let_def truthy_def split: option.splits)

lemma token_handler_code_forward:
  assumes "body ''grant_type'' = Some ''authorization_code''"
    and "truthy (body ''code'')" and "truthy (body ''redirect_uri'')"
  shows "\<exists>params. snd (token_handler config fetch body)
           = [(tokenEndpoint (getAuthEndpoints (Config.tenantId config)), params)]"
  using assms by (auto simp: token_handler_def Let_def truthy_def proxy_fetch_def split: option.splits)

lemma token_handler_refresh_missing:
  assumes "body ''grant_type'' = Some ''refresh_token''"
    and "\<not> truthy (body ''refresh_token'')"
  shows "token_handler config fetch body
     = (ErrorReply 400 ''invalid_request''
          ''refresh_token is required for refresh_token grant'', [])"
  using assms by (auto simp: token_handler_def Let_def truthy_def split: option.splits)

lemma token_handler_refresh_forward:
  assumes "body ''grant_type'' = Some ''refresh_token''"
    and "truthy (body ''refresh_token'')"
  shows "\<exists>params. snd (token_handler config fetch body)
           = [(tokenEndpoint (getAuthEndpoints (Config.tenantId config)), params)]"
  using assms by (auto simp: token_handler_def Let_def truthy_def proxy_fetch_def split: option.splits)

lemma token_handler_forwarded:
  "snd (token_handler config fetch body) = []
   \<or> (\<exists>params. snd (token_handler config fetch body)
           = [(tokenEndpoint (getAuthEndpoints (Config.tenantId config)), params)]
        \<and> sp_getAll params ''client_id'' = [clientId config]
        \<and> sp_getAll params ''client_secret''
           = (case clientSecret config of None \<Rightarrow> [] | Some s \<Rightarrow> if s = [] then [] else [s]))"
  by (auto simp: token_handler_def Let_def proxy_fetch_def sp_getAll_def split: option.splits)

text \<open>
  C3, as amended. A \<open>/token\<close> request whose \<open>grant_type\<close> is missing or empty is answered
  with 400 \<open>invalid_request\<close>; one whose \<open>grant_type\<close> is non-empty and neither
  \<open>authorization_code\<close> nor \<open>refresh_token\<close> with 400 \<open>unsupported_grant_type\<close>; in both
  cases no request goes upstream. An \<open>authorization_code\<close> request makes exactly one
  upstream request when \<open>code\<close> and \<open>redirect_uri\<close> are both present and non-empty, and is
  otherwise answered with 400 \<open>invalid_request\<close> and makes none; a \<open>refresh_token\<close>
  request likewise, on \<open>refresh_token\<close>.
\<close>

theorem token_grant_validation:
  "(\<not> truthy (body ''grant_type'') \<longrightarrow>
      token_handler config fetch body
        = (ErrorReply 400 ''invalid_request'' ''grant_type parameter is required'', []))
   \<and> (body ''grant_type'' = Some g \<and> g \<noteq> [] \<and> g \<noteq> ''authorization_code''
        \<and> g \<noteq> ''refresh_token'' \<longrightarrow>
      token_handler config fetch body
        = (ErrorReply 400 ''unsupported_grant_type''
             (''Grant type '' @ [CHR 0x27] @ g @ [CHR 0x27] @ '' is not supported''), []))
   \<and> (body ''grant_type'' = Some ''authorization_code'' \<longrightarrow>
      (if truthy (body ''code'') \<and> truthy (body ''redirect_uri'')
       then \<exists>params. snd (token_handler config fetch body)
              = [(tokenEndpoint (getAuthEndpoints (Config.tenantId config)), params)]
       else token_handler config fetch body
              = (ErrorReply 400 ''invalid_request''
                   ''code and redirect_uri are required for authorization_code grant'', [])))
   \<and> (body ''grant_type'' = Some ''refresh_token'' \<longrightarrow>
      (if truthy (body ''refresh_token'')
       then \<exists>params. snd (token_handler config fetch body)
              = [(tokenEndpoint (getAuthEndpoints (Config.tenantId config)), params)]
       else token_handler config fetch body
              = (ErrorReply 400 ''invalid_request''
                   ''refresh_token is required for refresh_token grant'', [])))"
proof (intro conjI impI)
  show "token_handler config fetch body
        = (ErrorReply 400 ''invalid_request'' ''grant_type parameter is required'', [])"
    if "\<not> truthy (body ''grant_type'')"
    using that by (rule token_handler_missing_grant_type)
  show "token_handler config fetch body
        = (ErrorReply 400 ''unsupported_grant_type''
             (''Grant type '' @ [CHR 0x27] @ g @ [CHR 0x27] @ '' is not supported''), [])"
    if "body ''grant_type'' = Some g \<and> g \<noteq> [] \<and> g \<noteq> ''authorization_code''
        \<and> g \<noteq> ''refresh_token''"
    using that token_handler_unsupported [of body g config fetch] by blast
  show "if truthy (body ''code'') \<and> truthy (body ''redirect_uri'')
       then \<exists>params. snd (token_handler config fetch body)
              = [(tokenEndpoint (getAuthEndpoints (Config.tenantId config)), params)]
       else token_handler config fetch body
              = (ErrorReply 400 ''invalid_request''
                   ''code and redirect_uri are required for authorization_code grant'', [])"
    if "body ''grant_type'' = Some ''authorization_code''"
    using that token_handler_code_missing [of body config fetch]
      token_handler_code_forward [of body config fetch]
    by (simp only: split: if_split) blast
  show "if truthy (body ''refresh_token'')
       then \<exists>params. snd (token_handler config fetch body)
              = [(tokenEndpoint (getAuthEndpoints (Config.tenantId config)), params)]
       else token_handler config fetch body
              = (ErrorReply 400 ''invalid_request''
                   ''refresh_token is required for refresh_token grant'', [])"
    if "body ''grant_type'' = Some ''refresh_token''"
    using that token_handler_refresh_missing [of body config fetch]
      token_handler_refresh_forward [of body config fetch]
    by (simp only: split: if_split) blast
qed

text \<open>One request for each branch of the handler.\<close>

theorem token_grant_validation_witness:
  "token_handler 
     \<lparr> clientId = ''gateway-app'', clientSecret = Some ''s3cret'', tenantId = ''common'',
       rateLimitRequests = 30, rateLimitWindowMs = 60000, allowedTenants = [] \<rparr>
     (\<lambda>endpoint params. FetchResponse 200 (Some (JObj []))) [''code'' \<mapsto> ''abc'']
     = (ErrorReply 400 ''invalid_request'' ''grant_type parameter is required'', [])
   \<and> token_handler 
     \<lparr> clientId = ''gateway-app'', clientSecret = Some ''s3cret'', tenantId = ''common'',
       rateLimitRequests = 30, rateLimitWindowMs = 60000, allowedTenants = [] \<rparr>
     (\<lambda>endpoint params. FetchResponse 200 (Some (JObj []))) [''grant_type'' \<mapsto> ''password'']
     = (ErrorReply 400 ''unsupported_grant_type''
          (''Grant type '' @ [CHR 0x27] @ ''password'' @ [CHR 0x27] @ '' is not supported''), [])
   \<and> token_handler 
     \<lparr> clientId = ''gateway-app'', clientSecret = Some ''s3cret'', tenantId = ''common'',
       rateLimitRequests = 30, rateLimitWindowMs = 60000, allowedTenants = [] \<rparr>
     (\<lambda>endpoint params. FetchResponse 200 (Some (JObj []))) [''grant_type'' \<mapsto> ''authorization_code'', ''code'' \<mapsto> ''abc'']
     = (ErrorReply 400 ''invalid_request''
          ''code and redirect_uri are required for authorization_code grant'', [])
   \<and> token_handler 
     \<lparr> clientId = ''gateway-app'', clientSecret = Some ''s3cret'', tenantId = ''common'',
       rateLimitRequests = 30, rateLimitWindowMs = 60000, allowedTenants = [] \<rparr>
     (\<lambda>endpoint params. FetchResponse 200 (Some (JObj [])))
        [''grant_type'' \<mapsto> ''authorization_code'', ''code'' \<mapsto> ''abc'', ''redirect_uri'' \<mapsto> ''X'']
     = (DataReply 200 (JObj []),
        [(''https://login.microsoftonline.com/common/oauth2/v2.0/token'',
          [(''client_id'', ''gateway-app''), (''grant_type'', ''authorization_code''),
           (''client_secret'', ''s3cret''), (''code'', ''abc''), (''redirect_uri'', ''X'')])])
   \<and> token_handler 
     \<lparr> clientId = ''gateway-app'', clientSecret = Some ''s3cret'', tenantId = ''common'',
       rateLimitRequests = 30, rateLimitWindowMs = 60000, allowedTenants = [] \<rparr>
     (\<lambda>endpoint params. FetchResponse 200 (Some (JObj []))) [''grant_type'' \<mapsto> ''refresh_token'']
     = (ErrorReply 400 ''invalid_request''
          ''refresh_token is required for refresh_token grant'', [])
   \<and> token_handler 
     \<lparr> clientId = ''gateway-app'', clientSecret = Some ''s3cret'', tenantId = ''common'',
       rateLimitRequests = 30, rateLimitWindowMs = 60000, allowedTenants = [] \<rparr>
     (\<lambda>endpoint params. FetchResponse 200 (Some (JObj []))) [''grant_type'' \<mapsto> ''refresh_token'', ''refresh_token'' \<mapsto> ''r1'']
     = (DataReply 200 (JObj []),
        [(''https://login.microsoftonline.com/common/oauth2/v2.0/token'',
          [(''client_id'', ''gateway-app''), (''grant_type'', ''refresh_token''),
           (''client_secret'', ''s3cret''), (''refresh_token'', ''r1'')])])"
  using
    token_grant_validation [of "[''code'' \<mapsto> ''abc'']" "
     \<lparr> clientId = ''gateway-app'', clientSecret = Some ''s3cret'', tenantId = ''common'',
       rateLimitRequests = 30, rateLimitWindowMs = 60000, allowedTenants = [] \<rparr>
    " "(\<lambda>endpoint params. FetchResponse 200 (Some (JObj [])))" "''password''"]
    token_grant_validation [of "[''grant_type'' \<mapsto> ''password'']" "
     \<lparr> clientId = ''gateway-app'', clientSecret = Some ''s3cret'', tenantId = ''common'',
       rateLimitRequests = 30, rateLimitWindowMs = 60000, allowedTenants = [] \<rparr>
    " "(\<lambda>endpoint params. FetchResponse 200 (Some (JObj [])))" "''password''"]
    token_grant_validation
      [of "[''grant_type'' \<mapsto> ''authorization_code'', ''code'' \<mapsto> ''abc'']" "
     \<lparr> clientId = ''gateway-app'', clientSecret = Some ''s3cret'', tenantId = ''common'',
       rateLimitRequests = 30, rateLimitWindowMs = 60000, allowedTenants = [] \<rparr>
    " "(\<lambda>endpoint params. FetchResponse 200 (Some (JObj [])))" "''password''"]
    token_grant_validation
      [of "[''grant_type'' \<mapsto> ''authorization_code'', ''code'' \<mapsto> ''abc'', ''redirect_uri'' \<mapsto> ''X'']"
          "
     \<lparr> clientId = ''gateway-app'', clientSecret = Some ''s3cret'', tenantId = ''common'',
       rateLimitRequests = 30, rateLimitWindowMs = 60000, allowedTenants = [] \<rparr>
    " "(\<lambda>endpoint params. FetchResponse 200 (Some (JObj [])))" "''password''"]
    token_grant_validation [of "[''grant_type'' \<mapsto> ''refresh_token'']" "
     \<lparr> clientId = ''gateway-app'', clientSecret = Some ''s3cret'', tenantId = ''common'',
       rateLimitRequests = 30, rateLimitWindowMs = 60000, allowedTenants = [] \<rparr>
    " "(\<lambda>endpoint params. FetchResponse 200 (Some (JObj [])))" "''password''"]
    token_grant_validation
      [of "[''grant_type'' \<mapsto> ''refresh_token'', ''refresh_token'' \<mapsto> ''r1'']" "
     \<lparr> clientId = ''gateway-app'', clientSecret = Some ''s3cret'', tenantId = ''common'',
       rateLimitRequests = 30, rateLimitWindowMs = 60000, allowedTenants = [] \<rparr>
    " "(\<lambda>endpoint params. FetchResponse 200 (Some (JObj [])))" "''password''"]
  by (simp add: token_handler_def proxy_fetch_def getAuthEndpoints_def truthy_def)

text \<open>
  C3 as stated fails for a request without \<open>grant_type\<close>: the grant type is neither of
  the two supported values, and the error code is \<open>invalid_request\<close>, not
  \<open>unsupported_grant_type\<close>.
\<close>

theorem token_missing_grant_type_counterexample:
  "[''code'' \<mapsto> ''abc''] ''grant_type'' \<noteq> Some ''authorization_code''
   \<and> [''code'' \<mapsto> ''abc''] ''grant_type'' \<noteq> Some ''refresh_token''
   \<and> token_handler 
     \<lparr> clientId = ''gateway-app'', clientSecret = Some ''s3cret'', tenantId = ''common'',
       rateLimitRequests = 30, rateLimitWindowMs = 60000, allowedTenants = [] \<rparr>
     (\<lambda>endpoint params. FetchResponse 200 (Some (JObj []))) [''code'' \<mapsto> ''abc'']
     = (ErrorReply 400 ''invalid_request'' ''grant_type parameter is required'', [])
   \<and> ''invalid_request'' \<noteq> ''unsupported_grant_type''"
  by (simp add: token_handler_def)

text \<open>
  C10. A request that \<open>/token\<close> sends upstream carries \<open>client_id\<close> once, with the
  configured client id, and \<open>client_secret\<close> once with the configured secret, or not at
  all when none is configured. Two request bodies that differ only in \<open>client_id\<close> and
  \<open>client_secret\<close> give the same upstream request and the same response.
\<close>

theorem token_upstream_credentials:
  "(snd (token_handler config fetch body) = []
    \<or> (\<exists>params. snd (token_handler config fetch body)
           = [(tokenEndpoint (getAuthEndpoints (Config.tenantId config)), params)]
        \<and> sp_getAll params ''client_id'' = [clientId config]
        \<and> sp_getAll params ''client_secret''
           = (case clientSecret config of None \<Rightarrow> [] | Some s \<Rightarrow> if s = [] then [] else [s])))
   \<and> ((\<forall>k. k \<noteq> ''client_id'' \<and> k \<noteq> ''client_secret'' \<longrightarrow> body k = body' k) \<longrightarrow>
        token_handler config fetch body = token_handler config fetch body')"
proof (intro conjI impI)
  show "snd (token_handler config fetch body) = []
    \<or> (\<exists>params. snd (token_handler config fetch body)
           = [(tokenEndpoint (getAuthEndpoints (Config.tenantId config)), params)]
        \<and> sp_getAll params ''client_id'' = [clientId config]
        \<and> sp_getAll params ''client_secret''
           = (case clientSecret config of None \<Rightarrow> [] | Some s \<Rightarrow> if s = [] then [] else [s]))"
    by (rule token_handler_forwarded)
  assume same: "\<forall>k. k \<noteq> ''client_id'' \<and> k \<noteq> ''client_secret'' \<longrightarrow> body k = body' k"
  have "body ''grant_type'' = body' ''grant_type''" using same by simp
  moreover have "body ''code'' = body' ''code''" using same by simp
  moreover have "body ''redirect_uri'' = body' ''redirect_uri''" using same by simp
  moreover have "body ''code_verifier'' = body' ''code_verifier''" using same by simp
  moreover have "body ''refresh_token'' = body' ''refresh_token''" using same by simp
  ultimately show "token_handler config fetch body = token_handler config fetch body'"
    by (rule token_handler_cong)
qed

text \<open>A refresh request with and without credentials of the caller's own.\<close>

theorem token_upstream_credentials_witness:
  "token_handler 
     \<lparr> clientId = ''gateway-app'', clientSecret = Some ''s3cret'', tenantId = ''common'',
       rateLimitRequests = 30, rateLimitWindowMs = 60000, allowedTenants = [] \<rparr>
     (\<lambda>endpoint params. FetchResponse 200 (Some (JObj [])))
     [''grant_type'' \<mapsto> ''refresh_token'', ''refresh_token'' \<mapsto> ''r1'',
      ''client_id'' \<mapsto> ''evil123'', ''client_secret'' \<mapsto> ''stolen'']
     = (DataReply 200 (JObj []),
        [(''https://login.microsoftonline.com/common/oauth2/v2.0/token'',
          [(''client_id'', ''gateway-app''), (''grant_type'', ''refresh_token''),
           (''client_secret'', ''s3cret''), (''refresh_token'', ''r1'')])])
   \<and> token_handler 
     \<lparr> clientId = ''gateway-app'', clientSecret = Some ''s3cret'', tenantId = ''common'',
       rateLimitRequests = 30, rateLimitWindowMs = 60000, allowedTenants = [] \<rparr>
     (\<lambda>endpoint params. FetchResponse 200 (Some (JObj [])))
     [''grant_type'' \<mapsto> ''refresh_token'', ''refresh_token'' \<mapsto> ''r1'',
      ''client_id'' \<mapsto> ''evil123'', ''client_secret'' \<mapsto> ''stolen'']
     = token_handler 
     \<lparr> clientId = ''gateway-app'', clientSecret = Some ''s3cret'', tenantId = ''common'',
       rateLimitRequests = 30, rateLimitWindowMs = 60000, allowedTenants = [] \<rparr>
     (\<lambda>endpoint params. FetchResponse 200 (Some (JObj []))) [''grant_type'' \<mapsto> ''refresh_token'', ''refresh_token'' \<mapsto> ''r1'']"
proof -
  have same: "\<forall>k. k \<noteq> ''client_id'' \<and> k \<noteq> ''client_secret'' \<longrightarrow>
      [''grant_type'' \<mapsto> ''refresh_token'', ''refresh_token'' \<mapsto> ''r1'',
       ''client_id'' \<mapsto> ''evil123'', ''client_secret'' \<mapsto> ''stolen''] k
      = [''grant_type'' \<mapsto> ''refresh_token'', ''refresh_token'' \<mapsto> ''r1''] k"
    by simp
  have run: "token_handler 
     \<lparr> clientId = ''gateway-app'', clientSecret = Some ''s3cret'', tenantId = ''common'',
       rateLimitRequests = 30, rateLimitWindowMs = 60000, allowedTenants = [] \<rparr>
     (\<lambda>endpoint params. FetchResponse 200 (Some (JObj [])))
     [''grant_type'' \<mapsto> ''refresh_token'', ''refresh_token'' \<mapsto> ''r1'',
      ''client_id'' \<mapsto> ''evil123'', ''client_secret'' \<mapsto> ''stolen'']
     = (DataReply 200 (JObj []),
        [(''https://login.microsoftonline.com/common/oauth2/v2.0/token'',
          [(''client_id'', ''gateway-app''), (''grant_type'', ''refresh_token''),
           (''client_secret'', ''s3cret''), (''refresh_token'', ''r1'')])])"
    by (simp add: token_handler_def proxy_fetch_def getAuthEndpoints_def)
  from token_upstream_credentials
      [of "
     \<lparr> clientId = ''gateway-app'', clientSecret = Some ''s3cret'', tenantId = ''common'',
       rateLimitRequests = 30, rateLimitWindowMs = 60000, allowedTenants = [] \<rparr>
    " "(\<lambda>endpoint params. FetchResponse 200 (Some (JObj [])))"
          "[''grant_type'' \<mapsto> ''refresh_token'', ''refresh_token'' \<mapsto> ''r1'',
            ''client_id'' \<mapsto> ''evil123'', ''client_secret'' \<mapsto> ''stolen'']"
          "[''grant_type'' \<mapsto> ''refresh_token'', ''refresh_token'' \<mapsto> ''r1'']"]
    same
  have "token_handler 
     \<lparr> clientId = ''gateway-app'', clientSecret = Some ''s3cret'', tenantId = ''common'',
       rateLimitRequests = 30, rateLimitWindowMs = 60000, allowedTenants = [] \<rparr>
     (\<lambda>endpoint params. FetchResponse 200 (Some (JObj [])))
     [''grant_type'' \<mapsto> ''refresh_token'', ''refresh_token'' \<mapsto> ''r1'',
      ''client_id'' \<mapsto> ''evil123'', ''client_secret'' \<mapsto> ''stolen'']
     = token_handler 
     \<lparr> clientId = ''gateway-app'', clientSecret = Some ''s3cret'', tenantId = ''common'',
       rateLimitRequests = 30, rateLimitWindowMs = 60000, allowedTenants = [] \<rparr>
     (\<lambda>endpoint params. FetchResponse 200 (Some (JObj []))) [''grant_type'' \<mapsto> ''refresh_token'', ''refresh_token'' \<mapsto> ''r1'']"
    by blast
  with run show ?thesis by (rule conjI)
qed

section \<open>Dynamic client registration\<close>





section \<open>The rate limiter\<close>

lemma ceil_div_sign: "0 \<le> a \<Longrightarrow> 0 \<le> ceil_div a 1000 \<and> (0 < ceil_div a 1000 \<longleftrightarrow> 0 < a)"
  by (auto simp: ceil_div_def)

lemma admit_general:
  "((ws k = None \<or> (\<exists>w. ws k = Some w \<and> now - windowStartMs w > windowMs)) \<longrightarrow>
      snd (admit limit windowMs now k ws) k = Some \<lparr> windowStartMs = now, requestCount = 1 \<rparr>)
   \<and> (ws k = Some w \<and> now - windowStartMs w \<le> windowMs \<longrightarrow>
      snd (admit limit windowMs now k ws) k = Some (w\<lparr> requestCount := requestCount w + 1 \<rparr>))
   \<and> (\<exists>w'. snd (admit limit windowMs now k ws) k = Some w'
        \<and> allowed (fst (admit limit windowMs now k ws)) = (requestCount w' \<le> limit)
        \<and> remaining (fst (admit limit windowMs now k ws)) = max 0 (limit - requestCount w')
        \<and> resetAtMs (fst (admit limit windowMs now k ws)) = windowStartMs w' + windowMs)"
  by (auto simp: admit_def next_window_def Let_def)

lemma admit_scenario:
  assumes "windows U = None" and "t1 \<le> t2" and "t2 \<le> t3" and "t3 \<le> t4"
    and "t4 \<le> t1 + 60000" and "t1 + 60000 < t5"
  shows "(let (d1, w1) = admit 3 60000 t1 U windows;
         (d2, w2) = admit 3 60000 t2 U w1;
         (d3, w3) = admit 3 60000 t3 U w2;
         (d4, w4) = admit 3 60000 t4 U w3;
         (d5, w5) = admit 3 60000 t5 U w4
     in allowed d1 \<and> remaining d1 = 2 \<and> allowed d2 \<and> remaining d2 = 1
        \<and> allowed d3 \<and> remaining d3 = 0
        \<and> \<not> allowed d4
        \<and> (\<exists>s. retryAfterSeconds d4 = Some s \<and> 0 \<le> s \<and> (0 < s \<longleftrightarrow> t4 < t1 + 60000))
        \<and> allowed d5 \<and> remaining d5 = 2)"
  using assms ceil_div_sign [of "t1 + 60000 - t4"]
  by (simp add: admit_def next_window_def Let_def)

text \<open>
  C2, as amended. A call of \<open>admit\<close> for \<open>k\<close> starts a fresh window, with count 1 and
  start \<open>now\<close>, when \<open>k\<close> has no window or its window is older than \<open>windowMs\<close>, and
  increments the count otherwise; the decision has \<open>allowed = (count \<le> limit)\<close>,
  \<open>remaining = max(0, limit - count)\<close> and \<open>resetAtMs = windowStartMs + windowMs\<close> of the
  window after the call. With \<open>limit = 3\<close> and \<open>windowMs = 60000\<close>, for an identity
  without a window: three calls within the window are allowed with 2, 1 and 0 remaining;
  a fourth call within the window is denied, with \<open>retryAfterSeconds > 0\<close> when it comes
  before the reset time and \<open>retryAfterSeconds = 0\<close> when it comes at the reset time, where
  the window's age equals \<open>windowMs\<close> and does not exceed it; and a fifth call later than
  \<open>windowMs\<close> after the first is allowed with 2 remaining.
\<close>

theorem admit_window_policy:
  "((ws k = None \<or> (\<exists>w. ws k = Some w \<and> now - windowStartMs w > windowMs)) \<longrightarrow>
      snd (admit limit windowMs now k ws) k = Some \<lparr> windowStartMs = now, requestCount = 1 \<rparr>)
   \<and> (ws k = Some w \<and> now - windowStartMs w \<le> windowMs \<longrightarrow>
      snd (admit limit windowMs now k ws) k = Some (w\<lparr> requestCount := requestCount w + 1 \<rparr>))
   \<and> (\<exists>w'. snd (admit limit windowMs now k ws) k = Some w'
        \<and> allowed (fst (admit limit windowMs now k ws)) = (requestCount w' \<le> limit)
        \<and> remaining (fst (admit limit windowMs now k ws)) = max 0 (limit - requestCount w')
        \<and> resetAtMs (fst (admit limit windowMs now k ws)) = windowStartMs w' + windowMs)
   \<and> (windows U = None \<and> t1 \<le> t2 \<and> t2 \<le> t3 \<and> t3 \<le> t4 \<and> t4 \<le> t1 + 60000 \<and> t1 + 60000 < t5 \<longrightarrow>
       (let (d1, w1) = admit 3 60000 t1 U windows;
            (d2, w2) = admit 3 60000 t2 U w1;
            (d3, w3) = admit 3 60000 t3 U w2;
            (d4, w4) = admit 3 60000 t4 U w3;
            (d5, w5) = admit 3 60000 t5 U w4
        in allowed d1 \<and> remaining d1 = 2 \<and> allowed d2 \<and> remaining d2 = 1
           \<and> allowed d3 \<and> remaining d3 = 0
           \<and> \<not> allowed d4
           \<and> (\<exists>s. retryAfterSeconds d4 = Some s \<and> 0 \<le> s \<and> (0 < s \<longleftrightarrow> t4 < t1 + 60000))
           \<and> allowed d5 \<and> remaining d5 = 2))"
proof (intro conjI impI)
  show "windows U = None \<and> t1 \<le> t2 \<and> t2 \<le> t3 \<and> t3 \<le> t4 \<and> t4 \<le> t1 + 60000 \<and> t1 + 60000 < t5 \<Longrightarrow>
       (let (d1, w1) = admit 3 60000 t1 U windows;
            (d2, w2) = admit 3 60000 t2 U w1;
            (d3, w3) = admit 3 60000 t3 U w2;
            (d4, w4) = admit 3 60000 t4 U w3;
            (d5, w5) = admit 3 60000 t5 U w4
        in allowed d1 \<and> remaining d1 = 2 \<and> allowed d2 \<and> remaining d2 = 1
           \<and> allowed d3 \<and> remaining d3 = 0
           \<and> \<not> allowed d4
           \<and> (\<exists>s. retryAfterSeconds d4 = Some s \<and> 0 \<le> s \<and> (0 < s \<longleftrightarrow> t4 < t1 + 60000))
           \<and> allowed d5 \<and> remaining d5 = 2)"
    by (elim conjE) (rule admit_scenario)
qed (use admit_general [where ws = ws and k = k and now = now and windowMs = windowMs
      and limit = limit and w = w] in blast)+

text \<open>
  Calls at 1 s, 2 s, 3 s and 31 s, and a fifth at 61.001 s; and the same with the fourth
  call at the reset time, 61 s.
\<close>

theorem admit_window_policy_witness:
  "(let (d1, w1) = admit 3 60000 1000 ''U'' Map.empty;
        (d2, w2) = admit 3 60000 2000 ''U'' w1;
        (d3, w3) = admit 3 60000 3000 ''U'' w2;
        (d4, w4) = admit 3 60000 31000 ''U'' w3;
        (d5, w5) = admit 3 60000 61001 ''U'' w4
    in d1 = \<lparr> allowed = True, remaining = 2, resetAtMs = 61000, retryAfterSeconds = None \<rparr>
       \<and> d2 = \<lparr> allowed = True, remaining = 1, resetAtMs = 61000, retryAfterSeconds = None \<rparr>
       \<and> d3 = \<lparr> allowed = True, remaining = 0, resetAtMs = 61000, retryAfterSeconds = None \<rparr>
       \<and> d4 = \<lparr> allowed = False, remaining = 0, resetAtMs = 61000, retryAfterSeconds = Some 30 \<rparr>
       \<and> d5 = \<lparr> allowed = True, remaining = 2, resetAtMs = 121001, retryAfterSeconds = None \<rparr>
       \<and> w5 ''U'' = Some \<lparr> windowStartMs = 61001, requestCount = 1 \<rparr>)
   \<and> (let (d1, w1) = admit 3 60000 1000 ''U'' Map.empty;
        (d2, w2) = admit 3 60000 2000 ''U'' w1;
        (d3, w3) = admit 3 60000 3000 ''U'' w2;
        (d4, w4) = admit 3 60000 61000 ''U'' w3;
        (d5, w5) = admit 3 60000 61001 ''U'' w4
    in d4 = \<lparr> allowed = False, remaining = 0, resetAtMs = 61000, retryAfterSeconds = Some 0 \<rparr>
       \<and> d5 = \<lparr> allowed = True, remaining = 2, resetAtMs = 121001, retryAfterSeconds = None \<rparr>)"
  using
    admit_window_policy
      [where ws = Map.empty and k = "''U''" and now = 1000 and windowMs = 60000 and limit = 3
         and w = "\<lparr> windowStartMs = 0, requestCount = 0 \<rparr>"
         and windows = Map.empty and U = "''U''"
         and ?t1.0 = 1000 and ?t2.0 = 2000 and ?t3.0 = 3000 and ?t4.0 = 31000 and ?t5.0 = 61001]
    admit_window_policy
      [where ws = Map.empty and k = "''U''" and now = 1000 and windowMs = 60000 and limit = 3
         and w = "\<lparr> windowStartMs = 0, requestCount = 0 \<rparr>"
         and windows = Map.empty and U = "''U''"
         and ?t1.0 = 1000 and ?t2.0 = 2000 and ?t3.0 = 3000 and ?t4.0 = 61000 and ?t5.0 = 61001]
  by (simp add: admit_def next_window_def ceil_div_def Let_def)

text \<open>
  C2 as stated fails for a fourth call at the reset time: with the first call at 1 s the
  window is reset only after 61 s, so a call at 61 s is still within the window; it is
  denied, and \<open>retryAfterSeconds\<close> is 0.
\<close>

theorem admit_reset_time_counterexample:
  "\<not> (61000 - 1000 > (60000 :: int))
   \<and> fst (admit 3 60000 61000 ''U''
       (snd (admit 3 60000 3000 ''U''
         (snd (admit 3 60000 2000 ''U''
           (snd (admit 3 60000 1000 ''U'' Map.empty)))))))
     = \<lparr> allowed = False, remaining = 0, resetAtMs = 61000, retryAfterSeconds = Some 0 \<rparr>"
  by (simp add: admit_def next_window_def ceil_div_def Let_def)

section \<open>The claim extractor\<close>

text \<open>
  C4. For a token whose payload decodes to a claim set (subject and tenant strings, a
  numeric expiry): \<open>parse\<close> yields \<open>ExpiredToken\<close> when the expiry is strictly less than
  the current time, and the claims when the expiry is the current time or later; the
  boundary itself is still valid.
\<close>

theorem parse_expiry_boundary:
  assumes "split_on (CHR ''.'') tok = [header, payload, signature]"
    and "base64url payload = Some decoded" and "jsonParse decoded = Some (JObj members)"
    and "map_of members (subjectKey keys) = Some (JStr subject)"
    and "map_of members (tenantKey keys) = Some (JStr tenant)"
    and "map_of members (expiryKey keys) = Some (JNum expiry)"
  shows "(expiry < now \<longrightarrow> parse base64url jsonParse keys now tok = Inl ExpiredToken)
    \<and> (expiry = now \<longrightarrow>
         (\<exists>claims. parse base64url jsonParse keys now tok = Inr claims
            \<and> expiresAt claims = now \<and> subjectId claims = subject
            \<and> ParsedClaims.tenantId claims = tenant))
    \<and> (now < expiry \<longrightarrow>
         (\<exists>claims. parse base64url jsonParse keys now tok = Inr claims
            \<and> expiresAt claims = expiry))"
  using assms by (simp add: parse_def)

text \<open>A token that expires at 1700000000, parsed one second late and on time.\<close>

theorem parse_expiry_boundary_witness:
  "parse (\<lambda>s. Some s)
     (\<lambda>s. Some (JObj [(''oid'', JStr ''user-1''), (''tid'', JStr ''tenant-1''),
                      (''exp'', JNum 1700000000), (''upn'', JStr ''ada@contoso.com'')]))
     \<lparr> subjectKey = ''oid'', tenantKey = ''tid'', expiryKey = ''exp'', principalKey = ''upn'' \<rparr>
     1700000001 ''h.p.s''
   = Inl ExpiredToken
   \<and> parse (\<lambda>s. Some s)
     (\<lambda>s. Some (JObj [(''oid'', JStr ''user-1''), (''tid'', JStr ''tenant-1''),
                      (''exp'', JNum 1700000000), (''upn'', JStr ''ada@contoso.com'')]))
     \<lparr> subjectKey = ''oid'', tenantKey = ''tid'', expiryKey = ''exp'', principalKey = ''upn'' \<rparr>
     1700000000 ''h.p.s''
   = Inr \<lparr> subjectId = ''user-1'', ParsedClaims.tenantId = ''tenant-1'',
           displayIdentifier = ''ada@contoso.com'', expiresAt = 1700000000 \<rparr>"
  using
    parse_expiry_boundary
      [of "''h.p.s''" "''h''" "''p''" "''s''" "\<lambda>s. Some s" "''p''"
          "\<lambda>s. Some (JObj [(''oid'', JStr ''user-1''), (''tid'', JStr ''tenant-1''),
                      (''exp'', JNum 1700000000), (''upn'', JStr ''ada@contoso.com'')])"
          "[(''oid'', JStr ''user-1''), (''tid'', JStr ''tenant-1''),
                      (''exp'', JNum 1700000000), (''upn'', JStr ''ada@contoso.com'')]"
          "\<lparr> subjectKey = ''oid'', tenantKey = ''tid'', expiryKey = ''exp'', principalKey = ''upn'' \<rparr>"
          "''user-1''" "''tenant-1''" 1700000000 1700000001]
    parse_expiry_boundary
      [of "''h.p.s''" "''h''" "''p''" "''s''" "\<lambda>s. Some s" "''p''"
          "\<lambda>s. Some (JObj [(''oid'', JStr ''user-1''), (''tid'', JStr ''tenant-1''),
                      (''exp'', JNum 1700000000), (''upn'', JStr ''ada@contoso.com'')])"
          "[(''oid'', JStr ''user-1''), (''tid'', JStr ''tenant-1''),
                      (''exp'', JNum 1700000000), (''upn'', JStr ''ada@contoso.com'')]"
          "\<lparr> subjectKey = ''oid'', tenantKey = ''tid'', expiryKey = ''exp'', principalKey = ''upn'' \<rparr>"
          "''user-1''" "''tenant-1''" 1700000000 1700000000]
  by (simp add: parse_def)

end
